theory Spec2Isabelle
  imports Complex_Main "HOL-Library.Multiset"
begin

section \<open>Strings and character classes\<close>

text \<open>
  A JavaScript string is modelled as a \<open>string\<close>: one \<open>char\<close> stands for one code unit
  (the model covers code units below 256). The regular-expression classes are those
  of ECMAScript without the \<open>u\<close> flag: \<open>\w\<close> is \<open>[A-Za-z0-9_]\<close>, \<open>\s\<close> is the white space
  and line terminator set (tab, LF, VT, FF, CR, space and no-break space below 256).
\<close>

definition code :: "char \<Rightarrow> nat" where
  "code c = of_char c"

definition isWordChar :: "char \<Rightarrow> bool" where
  "isWordChar c =
     ((48 \<le> code c \<and> code c \<le> 57) \<or> (65 \<le> code c \<and> code c \<le> 90)
      \<or> code c = 95 \<or> (97 \<le> code c \<and> code c \<le> 122))"

definition isSpace :: "char \<Rightarrow> bool" where
  "isSpace c = ((9 \<le> code c \<and> code c \<le> 13) \<or> code c = 32 \<or> code c = 160)"

text \<open>\<open>String.prototype.toLowerCase\<close>, on code units below 256.\<close>

definition lowerChar :: "char \<Rightarrow> char" where
  "lowerChar c =
     (if (65 \<le> code c \<and> code c \<le> 90) \<or> (192 \<le> code c \<and> code c \<le> 222 \<and> code c \<noteq> 215)
      then char_of (code c + 32) else c)"

definition toLowerCase :: "string \<Rightarrow> string" where
  "toLowerCase s = map lowerChar s"

text \<open>
  \<open>String.prototype.slice(b, e)\<close>: a negative index counts from the end, every index is
  clamped to the string, and an empty range gives the empty string.
\<close>

definition clampIndex :: "int \<Rightarrow> int \<Rightarrow> int" where
  "clampIndex len i = (if i < 0 then max (len + i) 0 else min i len)"

definition slice :: "string \<Rightarrow> int \<Rightarrow> int \<Rightarrow> string" where
  "slice s b e =
     (let len = int (length s); lo = clampIndex len b; hi = clampIndex len e
      in if hi \<le> lo then [] else take (nat (hi - lo)) (drop (nat lo) s))"

text \<open>\<open>slice(b)\<close>: the end defaults to the length of the string.\<close>

definition sliceFrom :: "string \<Rightarrow> int \<Rightarrow> string" where
  "sliceFrom s b = slice s b (int (length s))"

section \<open>Data model\<close>

text \<open>
  A change object \<open>{ id, type, position: { start, end }, original, suggested, reason }\<close>.
  The \<open>id\<close> is a random identifier (\<open>uuidv4\<close>) that no operation reads; it is left out.
  The \<open>type\<close> is the JavaScript string.
\<close>

record position =
  pstart :: int
  pend :: int

record change =
  ctype :: string
  cposition :: position
  coriginal :: string
  csuggested :: string
  creason :: string

text \<open>A part of the result of \<open>diffWords\<close>: \<open>{ added, removed, value }\<close>.\<close>

record part =
  added :: bool
  removed :: bool
  pvalue :: string

text \<open>The object \<open>{ status, code, message, details: { reason } }\<close> thrown by
  \<open>generateSuggestions\<close>.\<close>

record thrown =
  estatus :: nat
  ecode :: string
  emessage :: string
  ereason :: string

section \<open>Reconciliation: \<open>applyChangesToContent\<close>\<close>

definition applyChange :: "string \<Rightarrow> change \<Rightarrow> string" where
  "applyChange result c =
     (let s = pstart (cposition c); e = pend (cposition c)
      in if ctype c = ''addition'' then slice result 0 s @ csuggested c @ sliceFrom result s
         else if ctype c = ''deletion'' then slice result 0 s @ sliceFrom result e
         else if ctype c = ''modification'' then slice result 0 s @ csuggested c @ sliceFrom result e
         else result)"

text \<open>
  \<open>[...changes].sort((a, b) => b.position.start - a.position.start)\<close>: a stable sort,
  descending in \<open>position.start\<close>.
\<close>

definition sortedChanges :: "change list \<Rightarrow> change list" where
  "sortedChanges changes = sort_key (\<lambda>c. - pstart (cposition c)) changes"

text \<open>
  The function has no \<open>throw\<close> and calls nothing that throws on strings and integers:
  every path returns, which the result type records.
\<close>

definition applyChangesToContent :: "string \<Rightarrow> change list \<Rightarrow> thrown + string" where
  "applyChangesToContent original changes =
     Inr (foldl applyChange original (sortedChanges changes))"

section \<open>Regular expressions used by the classifier and the rules\<close>

text \<open>
  The patterns of the source are literals between word boundaries, possibly followed by a
  white space run or a negative lookahead. A matcher takes the code unit before the
  current index (\<open>None\<close> at index 0) and the rest of the string from that index.
\<close>

definition canonicalize :: "char \<Rightarrow> char" where
  \<comment> \<open>The \<open>i\<close> flag compares canonicalised code units; the pattern characters are ASCII,
      and no other code unit canonicalises to an ASCII one.\<close>
  "canonicalize c = (if 97 \<le> code c \<and> code c \<le> 122 then char_of (code c - 32) else c)"

definition wordBefore :: "char option \<Rightarrow> bool" where
  "wordBefore prev = (case prev of None \<Rightarrow> False | Some c \<Rightarrow> isWordChar c)"

definition wordHere :: "string \<Rightarrow> bool" where
  "wordHere s = (case s of [] \<Rightarrow> False | c # _ \<Rightarrow> isWordChar c)"

definition boundary :: "char option \<Rightarrow> string \<Rightarrow> bool" where
  \<comment> \<open>the assertion \<open>\b\<close>\<close>
  "boundary prev s = (wordBefore prev \<noteq> wordHere s)"

definition litAt :: "bool \<Rightarrow> string \<Rightarrow> string \<Rightarrow> bool" where
  \<comment> \<open>the literal \<open>w\<close> at the current index; the flag is \<open>ignoreCase\<close>\<close>
  "litAt ic w s =
     (length w \<le> length s \<and>
      (if ic then map canonicalize (take (length w) s) = map canonicalize w
       else take (length w) s = w))"

definition lastOf :: "char option \<Rightarrow> string \<Rightarrow> char option" where
  "lastOf prev m = (if m = [] then prev else Some (last m))"

definition boundedLit :: "bool \<Rightarrow> string \<Rightarrow> char option \<Rightarrow> string \<Rightarrow> nat option" where
  \<comment> \<open>\<open>\bw\b\<close>: the length of the match at the current index\<close>
  "boundedLit ic w prev s =
     (if boundary prev s \<and> litAt ic w s
         \<and> boundary (lastOf prev (take (length w) s)) (drop (length w) s)
      then Some (length w) else None)"

definition litThenSpaces :: "bool \<Rightarrow> string \<Rightarrow> char option \<Rightarrow> string \<Rightarrow> nat option" where
  \<comment> \<open>\<open>\bw\s+\<close>: the white space run is greedy and nothing follows it\<close>
  "litThenSpaces ic w prev s =
     (let sp = takeWhile isSpace (drop (length w) s)
      in if boundary prev s \<and> litAt ic w s \<and> sp \<noteq> [] then Some (length w + length sp)
         else None)"

definition anyBoundedLit :: "string list \<Rightarrow> char option \<Rightarrow> string \<Rightarrow> bool" where
  \<comment> \<open>\<open>\b(w1|w2|...)\b\<close> and \<open>\b(w1|w2|...) tail\b\<close>, the alternatives written out\<close>
  "anyBoundedLit ws prev s = list_ex (\<lambda>w. boundedLit False w prev s \<noteq> None) ws"

text \<open>\<open>regex.test(s)\<close> and the truth value of \<open>s.match(regex)\<close>: a match at some index.\<close>

fun searchFrom :: "(char option \<Rightarrow> string \<Rightarrow> bool) \<Rightarrow> char option \<Rightarrow> string \<Rightarrow> bool" where
  "searchFrom m prev [] = m prev []"
| "searchFrom m prev (c # cs) = (m prev (c # cs) \<or> searchFrom m (Some c) cs)"

definition test :: "(char option \<Rightarrow> string \<Rightarrow> bool) \<Rightarrow> string \<Rightarrow> bool" where
  "test m s = searchFrom m None s"

text \<open>
  \<open>s.replace(regex, r)\<close> with the \<open>g\<close> flag, for a pattern that matches no empty string
  and a replacement without \<open>$\<close>: matches are taken left to right and do not overlap.
  The counter is the number of code units of the current match still to skip.
\<close>

fun replaceFrom ::
  "(char option \<Rightarrow> string \<Rightarrow> nat option) \<Rightarrow> string \<Rightarrow> char option \<Rightarrow> nat \<Rightarrow> string \<Rightarrow> string" where
  "replaceFrom m r prev k [] = []"
| "replaceFrom m r prev k (c # cs) =
     (if 0 < k then replaceFrom m r (Some c) (k - 1) cs
      else case m prev (c # cs) of
             Some (Suc n) \<Rightarrow> r @ replaceFrom m r (Some c) n cs
           | _ \<Rightarrow> c # replaceFrom m r (Some c) 0 cs)"

definition replaceAll :: "(char option \<Rightarrow> string \<Rightarrow> nat option) \<Rightarrow> string \<Rightarrow> string \<Rightarrow> string" where
  "replaceAll m r s = replaceFrom m r None 0 s"

text \<open>\<open>s.split(/\s+/)\<close>: the pieces between the white space runs, empty pieces included.\<close>

fun splitFrom :: "string \<Rightarrow> bool \<Rightarrow> string \<Rightarrow> string list" where
  "splitFrom cur inSpace [] = [cur]"
| "splitFrom cur inSpace (c # cs) =
     (if isSpace c then (if inSpace then splitFrom cur True cs else cur # splitFrom [] True cs)
      else splitFrom (cur @ [c]) False cs)"

definition splitSpaces :: "string \<Rightarrow> string list" where
  "splitSpaces s = splitFrom [] False s"

section \<open>Reasons: \<open>getReasonForChange\<close>\<close>

definition grammarPatterns :: "((string \<Rightarrow> bool) \<times> (string \<Rightarrow> bool)) list" where
  "grammarPatterns =
     [(test (anyBoundedLit [''team are'', ''group are'', ''committee are'']),
       test (anyBoundedLit [''team is'', ''group is'', ''committee is''])),
      (test (anyBoundedLit [''he were'', ''she were'', ''it were'']),
       test (anyBoundedLit [''he was'', ''she was'', ''it was''])),
      (test (anyBoundedLit [''theyre'']), test (anyBoundedLit [''their''])),
      (test (\<lambda>prev s. anyBoundedLit [''its''] prev s \<and> \<not> litAt False [CHR 39] (drop 3 s)),
       test (anyBoundedLit [''it'' @ [CHR 39] @ ''s''])),
      (test (anyBoundedLit [''has went'']), test (anyBoundedLit [''has gone''])),
      (test (anyBoundedLit [''has did'']), test (anyBoundedLit [''has done'']))]"

definition isGrammarCorrection :: "string \<Rightarrow> string \<Rightarrow> bool" where
  "isGrammarCorrection original suggested =
     list_ex (\<lambda>(from_p, to_p). from_p original \<and> to_p suggested) grammarPatterns"

definition getGrammarReason :: "string \<Rightarrow> string \<Rightarrow> string" where
  "getGrammarReason original suggested =
     (if test (anyBoundedLit [''team are'', ''group are'', ''committee are'']) original
         \<and> test (anyBoundedLit [''team is'', ''group is'', ''committee is'']) suggested
      then ''Subject-verb agreement: collective noun is singular''
      else if test (anyBoundedLit [''theyre'']) original \<and> test (anyBoundedLit [''their'']) suggested
      then ''Possessive pronoun required''
      else if test (anyBoundedLit [''has went'']) original
              \<and> test (anyBoundedLit [''has gone'']) suggested
      then ''Correct past participle''
      else ''Grammar correction'')"

definition improvements :: "(string \<times> string) list" where
  "improvements =
     [(''utilize'', ''use''), (''facilitate'', ''help''), (''endeavor'', ''try''),
      (''commence'', ''start''), (''terminate'', ''end''), (''good'', ''excellent''),
      (''nice'', ''pleasant''), (''big'', ''substantial''), (''small'', ''minimal'')]"

text \<open>
  \<open>originalWords.some((word, i) => ...)\<close>: the word at index \<open>i\<close> is a key of the table and
  the suggested word at the same index is its value. A key inherited from
  \<open>Object.prototype\<close> gives an object, never equal to a string, as a missing key does.
\<close>

fun someImproved :: "string list \<Rightarrow> string list \<Rightarrow> bool" where
  "someImproved [] ss = False"
| "someImproved (w # ws) ss =
     ((case map_of improvements w of
         None \<Rightarrow> False
       | Some better \<Rightarrow> (case ss of [] \<Rightarrow> False | s # _ \<Rightarrow> s = better))
      \<or> someImproved ws (tl ss))"

definition isWordChoiceImprovement :: "string \<Rightarrow> string \<Rightarrow> bool" where
  "isWordChoiceImprovement original suggested =
     someImproved (splitSpaces original) (splitSpaces suggested)"

text \<open>
  \<open>original.length > suggested.length * 1.5\<close> compares an integer with a multiple of one
  half, which is exact in binary floating point: it is \<open>2 * a > 3 * b\<close>.
\<close>

definition getReasonForChange :: "string \<Rightarrow> string \<Rightarrow> string \<Rightarrow> string" where
  "getReasonForChange ty original suggested =
     (let originalLower = toLowerCase original; suggestedLower = toLowerCase suggested
      in if ty = ''addition'' then
           (if test (anyBoundedLit [''innovative'', ''exceptional'', ''comprehensive'']) suggestedLower
            then ''Adds descriptive emphasis'' else ''Adds additional context'')
         else if ty = ''deletion'' then
           (if test (anyBoundedLit [''very'', ''really'', ''quite'', ''just'']) originalLower
            then ''Removes unnecessary modifier'' else ''Simplifies phrasing'')
         else if ty = ''modification'' then
           (if isGrammarCorrection originalLower suggestedLower
            then getGrammarReason originalLower suggestedLower
            else if isWordChoiceImprovement originalLower suggestedLower
            then ''Improves word choice''
            else if 3 * length suggested < 2 * length original then ''Simplifies expression''
            else if 3 * length original < 2 * length suggested then ''Adds more detail''
            else ''Enhances clarity'')
         else ''Improves content'')"

section \<open>The diff engine: \<open>calculateWordDiff\<close>\<close>

text \<open>
  \<open>diffWords\<close> belongs to the package \<open>diff\<close>, which is not part of the repository: it is
  a parameter \<open>dw\<close> of the functions that call it. The loop over its parts carries the
  cursor \<open>position\<close> into the original string.
\<close>

fun diffLoop :: "part list \<Rightarrow> int \<Rightarrow> change list" where
  "diffLoop [] position = []"
| "diffLoop (p # ps) position =
     (if added p then
        \<lparr>ctype = ''addition'', cposition = \<lparr>pstart = position, pend = position\<rparr>,
         coriginal = [], csuggested = pvalue p,
         creason = getReasonForChange ''addition'' [] (pvalue p)\<rparr>
        # diffLoop ps position
      else if removed p then
        \<lparr>ctype = ''deletion'',
         cposition = \<lparr>pstart = position, pend = position + int (length (pvalue p))\<rparr>,
         coriginal = pvalue p, csuggested = [],
         creason = getReasonForChange ''deletion'' (pvalue p) []\<rparr>
        # diffLoop ps (position + int (length (pvalue p)))
      else diffLoop ps (position + int (length (pvalue p))))"

fun mergeAdjacentChanges :: "change list \<Rightarrow> change list" where
  "mergeAdjacentChanges [] = []"
| "mergeAdjacentChanges [current] = [current]"
| "mergeAdjacentChanges (current # next # rest) =
     (if ctype current = ''deletion'' \<and> ctype next = ''addition''
         \<and> pstart (cposition next) = pstart (cposition current)
      then \<lparr>ctype = ''modification'', cposition = cposition current,
            coriginal = coriginal current, csuggested = csuggested next,
            creason = getReasonForChange ''modification'' (coriginal current) (csuggested next)\<rparr>
           # mergeAdjacentChanges rest
      else current # mergeAdjacentChanges (next # rest))"

definition calculateWordDiff ::
  "(string \<Rightarrow> string \<Rightarrow> part list) \<Rightarrow> string \<Rightarrow> string \<Rightarrow> change list" where
  "calculateWordDiff dw original suggested = mergeAdjacentChanges (diffLoop (dw original suggested) 0)"

section \<open>The tokenizer: \<open>tokenize\<close>\<close>

record token =
  tvalue :: string
  tposition :: position
  ttype :: string

text \<open>
  One step of \<open>regex.exec\<close> for \<open>/(\w+|[^\w\s]+|\s+)/g\<close>: the three classes are disjoint and
  cover every code unit, so the match starts at \<open>lastIndex\<close> and is the longest run of
  the class of the code unit there.
\<close>

definition sameClass :: "char \<Rightarrow> char \<Rightarrow> bool" where
  "sameClass c d = (isWordChar d = isWordChar c \<and> isSpace d = isSpace c)"

definition tokenType :: "string \<Rightarrow> string" where
  "tokenType v =
     (if v \<noteq> [] \<and> list_all isWordChar v then ''word''
      else if v \<noteq> [] \<and> list_all isSpace v then ''whitespace''
      else ''punctuation'')"

function tokenizeFrom :: "int \<Rightarrow> string \<Rightarrow> token list" where
  "tokenizeFrom i [] = []"
| "tokenizeFrom i (c # cs) =
     (let v = c # takeWhile (sameClass c) cs
      in \<lparr>tvalue = v, tposition = \<lparr>pstart = i, pend = i + int (length v)\<rparr>, ttype = tokenType v\<rparr>
         # tokenizeFrom (i + int (length v)) (dropWhile (sameClass c) cs))"
  by pat_completeness auto
termination
  by (relation "measure (\<lambda>(i, s). length s)") (auto simp: length_dropWhile_le less_Suc_eq_le)

definition tokenize :: "string \<Rightarrow> token list" where
  "tokenize text = tokenizeFrom 0 text"

section \<open>The rule engine and the suggestion service\<close>

text \<open>
  The context is an object of free-form hints. A rule is \<open>{ name, condition?, apply }\<close>.
\<close>

type_synonym hints = "string \<rightharpoonup> string"

record ruleSpec =
  rname :: string
  condition :: "(string \<Rightarrow> hints \<Rightarrow> bool) option"
  apply_rule :: "string \<Rightarrow> hints \<Rightarrow> string"

text \<open>
  \<open>for (const [complex, simple] of Object.entries(replacements))\<close>: the entries in
  insertion order, each replaced everywhere by \<open>new RegExp(`\\b${complex}\\b`, 'gi')\<close>.
\<close>

definition replacements :: "(string \<times> string) list" where
  "replacements =
     [(''utilize'', ''use''), (''facilitate'', ''help''), (''endeavor'', ''try''),
      (''commence'', ''start''), (''terminate'', ''end''), (''demonstrate'', ''show''),
      (''sufficient'', ''enough''), (''subsequently'', ''later''), (''prior to'', ''before''),
      (''in order to'', ''to''), (''due to the fact that'', ''because''),
      (''at this point in time'', ''now''), (''in the event that'', ''if''),
      (''with regard to'', ''about''), (''methodology'', ''method''), (''implement'', ''do''),
      (''optimization'', ''improvement''), (''state-of-the-art'', ''modern''),
      (''cutting-edge'', ''advanced''), (''revolutionary'', ''new'')]"

definition replaceWords :: "(string \<times> string) list \<Rightarrow> string \<Rightarrow> string" where
  "replaceWords table text =
     foldl (\<lambda>result (w, r). replaceAll (boundedLit True w) r result) text table"

definition removeModifiers :: "string list \<Rightarrow> string \<Rightarrow> string" where
  \<comment> \<open>the chain \<open>.replace(/\bvery\s+/gi, '')\<close> ...\<close>
  "removeModifiers ws text = foldl (\<lambda>result w. replaceAll (litThenSpaces True w) [] result) text ws"

definition simplificationRules :: "ruleSpec list" where
  "simplificationRules =
     [\<lparr>rname = ''Replace complex words'', condition = None,
       apply_rule = (\<lambda>text ctx. replaceWords replacements text)\<rparr>,
      \<lparr>rname = ''Remove unnecessary modifiers'', condition = None,
       apply_rule = (\<lambda>text ctx.
         removeModifiers [''very'', ''really'', ''quite'', ''just'', ''actually'', ''basically''] text)\<rparr>,
      \<lparr>rname = ''Simplify compound words'', condition = None,
       apply_rule = (\<lambda>text ctx.
         replaceWords [(''in accordance with'', ''following''), (''for the purpose of'', ''to''),
                       (''in spite of the fact that'', ''although''), (''by means of'', ''by'')] text)\<rparr>]"

text \<open>
  The rule tables of the other three categories are parameters: no property below
  depends on what their rules compute.
\<close>

record ruleTables =
  improvementRules :: "ruleSpec list"
  grammarRules :: "ruleSpec list"
  expansionRules :: "ruleSpec list"

text \<open>\<open>selectRules\<close> throws \<open>new Error(...)\<close>; the left injection carries its message.\<close>

definition selectRules :: "ruleTables \<Rightarrow> string \<Rightarrow> string + ruleSpec list" where
  "selectRules tabs ty =
     (if ty = ''improve'' then Inr (improvementRules tabs)
      else if ty = ''grammar'' then Inr (grammarRules tabs)
      else if ty = ''simplify'' then Inr simplificationRules
      else if ty = ''expand'' then Inr (expansionRules tabs)
      else Inl (''Unknown suggestion type: '' @ ty))"

definition applyRule :: "hints \<Rightarrow> string \<Rightarrow> ruleSpec \<Rightarrow> string" where
  "applyRule ctx result rule =
     (case condition rule of
        None \<Rightarrow> apply_rule rule result ctx
      | Some cond \<Rightarrow> if \<not> cond result ctx then result else apply_rule rule result ctx)"

definition applyRules :: "string \<Rightarrow> ruleSpec list \<Rightarrow> hints \<Rightarrow> string" where
  "applyRules content rules ctx = foldl (applyRule ctx) content rules"

text \<open>
  \<open>models[type] || 'unknown'\<close>: \<open>generateSuggestions\<close> reads it only after \<open>selectRules\<close>
  has accepted the category, so only on the four keys of the table.
\<close>

definition getModelName :: "string \<Rightarrow> string" where
  "getModelName ty =
     (case map_of [(''improve'', ''improvement-v1''), (''grammar'', ''grammar-check-v1''),
                   (''simplify'', ''simplification-v1''), (''expand'', ''expansion-v1'')] ty of
        Some m \<Rightarrow> m | None \<Rightarrow> ''unknown'')"

text \<open>
  The confidence is computed in decimal fractions; the model computes with rationals,
  and \<open>Math.round(x * 100) / 100\<close> is \<open>round (x * 100) / 100\<close> (both round a half up).
\<close>

definition changeSize :: "change \<Rightarrow> nat" where
  "changeSize c = max (length (coriginal c)) (length (csuggested c))"

definition calculateConfidence :: "change list \<Rightarrow> rat" where
  "calculateConfidence changes =
     (if length changes = 0 then 1
      else let baseConfidence = (95 / 100 :: rat);
               changesPenalty = of_nat (length changes) * (2 / 100);
               sizePenalty = foldl (\<lambda>acc c. acc + (if 20 < changeSize c then 1 / 100 else 0)) 0 changes;
               confidence = max (1 / 2) (baseConfidence - changesPenalty - sizePenalty)
           in of_int (round (confidence * 100)) / 100)"

text \<open>
  A suggestion \<open>{ id, original, suggested, changes, metadata: { timestamp, model, confidence } }\<close>,
  without the random \<open>id\<close> and the clock reading \<open>timestamp\<close>.
\<close>

record suggestion =
  soriginal :: string
  ssuggested :: string
  schanges :: "change list"
  smodel :: string
  sconfidence :: rat

text \<open>
  \<open>generateSuggestions\<close>: whatever is thrown inside \<open>try\<close> is caught and thrown again as a
  \<open>GENERATION_FAILED\<close> object with the message of the error as \<open>details.reason\<close>.
\<close>

definition generateSuggestions ::
  "ruleTables \<Rightarrow> (string \<Rightarrow> string \<Rightarrow> part list) \<Rightarrow> string \<Rightarrow> string \<Rightarrow> hints
     \<Rightarrow> thrown + suggestion" where
  "generateSuggestions tabs dw content ty ctx =
     (case selectRules tabs ty of
        Inl msg \<Rightarrow>
          Inl \<lparr>estatus = 500, ecode = ''GENERATION_FAILED'',
               emessage = ''Failed to generate suggestions'', ereason = msg\<rparr>
      | Inr rules \<Rightarrow>
          (let sug = applyRules content rules ctx;
               chs = calculateWordDiff dw content sug
           in Inr \<lparr>soriginal = content, ssuggested = sug, schanges = chs,
                   smodel = getModelName ty, sconfidence = calculateConfidence chs\<rparr>))"

section \<open>The notions of the claims\<close>

text \<open>Two records overlap when their ranges \<open>[start, end)\<close> share an offset.\<close>

definition overlaps :: "change \<Rightarrow> change \<Rightarrow> bool" where
  "overlaps a b =
     (pstart (cposition a) < pend (cposition b) \<and> pstart (cposition b) < pend (cposition a))"

text \<open>
  The invariant of the loop of \<open>calculateWordDiff\<close>: every record starts at or after the
  end of the record before it (and the first one at or after \<open>lo\<close>), and ends at or after
  its start.
\<close>

fun chained :: "int \<Rightarrow> change list \<Rightarrow> bool" where
  "chained lo [] = True"
| "chained lo (c # cs) =
     (lo \<le> pstart (cposition c) \<and> pstart (cposition c) \<le> pend (cposition c)
      \<and> chained (pend (cposition c)) cs)"

text \<open>The shape of the records of each kind that the loop emits.\<close>

definition wellShaped :: "change \<Rightarrow> bool" where
  "wellShaped c =
     ((if ctype c = ''addition''
       then coriginal c = [] \<and> pstart (cposition c) = pend (cposition c) else True)
      \<and> (if ctype c = ''deletion''
          then csuggested c = []
               \<and> pend (cposition c) - pstart (cposition c) = int (length (coriginal c))
          else True))"

section \<open>Scenarios\<close>

text \<open>
  The parts that \<open>diffWords\<close> returns on the strings of the scenarios. It compares
  words and treats white space as insignificant: white space that differs between the
  two strings is no change for it, and an unchanged part carries the white space of the
  new string.
\<close>

definition common :: "string \<Rightarrow> part" where
  "common v = \<lparr>added = False, removed = False, pvalue = v\<rparr>"

definition deleted :: "string \<Rightarrow> part" where
  "deleted v = \<lparr>added = False, removed = True, pvalue = v\<rparr>"

definition inserted :: "string \<Rightarrow> part" where
  "inserted v = \<lparr>added = True, removed = False, pvalue = v\<rparr>"

definition grammarParts :: "part list" where
  "grammarParts = [common ''The team '', deleted ''are'', inserted ''is'', common '' working on it.'']"


text \<open>
  \<open>by means of\<close> followed by two spaces, against \<open>by\<close> followed by two spaces: the
  unchanged part has the two spaces of the new string after \<open>by\<close>.
\<close>

definition meansParts :: "part list" where
  "meansParts = [common ''by  '', deleted ''means of  '']"

text \<open>\<open>a b\<close> against \<open>a  b\<close>, which differ in white space only: one unchanged part.\<close>

definition spacesOnlyParts :: "part list" where
  "spacesOnlyParts = [common ''a  b'']"

definition noRules :: ruleTables where
  "noRules = \<lparr>improvementRules = [], grammarRules = [], expansionRules = []\<rparr>"

definition deletion1 :: change where
  "deletion1 = \<lparr>ctype = ''deletion'', cposition = \<lparr>pstart = 1, pend = 4\<rparr>, coriginal = ''bcd'',
                 csuggested = [], creason = []\<rparr>"

definition modification2 :: change where
  "modification2 = \<lparr>ctype = ''modification'', cposition = \<lparr>pstart = 2, pend = 5\<rparr>,
                     coriginal = ''cde'', csuggested = ''X'', creason = []\<rparr>"


definition largeChange :: change where
  "largeChange = \<lparr>ctype = ''addition'', cposition = \<lparr>pstart = 0, pend = 0\<rparr>, coriginal = [],
                   csuggested = ''response in under two'', creason = []\<rparr>"

section \<open>Evaluation rules\<close>

text \<open>
  The classes of the code units that occur in the scenarios, and the matchers unfolded one
  code unit at a time, first code unit first: they let the simplifier run the regular
  expressions on a concrete string.
\<close>

lemma char_eval:
  "canonicalize CHR ''a'' = CHR ''A''" "lowerChar CHR ''a'' = CHR ''a''" "isWordChar CHR ''a'' = True" "isSpace CHR ''a'' = False"
  "canonicalize CHR ''b'' = CHR ''B''" "lowerChar CHR ''b'' = CHR ''b''" "isWordChar CHR ''b'' = True" "isSpace CHR ''b'' = False"
  "canonicalize CHR ''c'' = CHR ''C''" "lowerChar CHR ''c'' = CHR ''c''" "isWordChar CHR ''c'' = True" "isSpace CHR ''c'' = False"
  "canonicalize CHR ''d'' = CHR ''D''" "lowerChar CHR ''d'' = CHR ''d''" "isWordChar CHR ''d'' = True" "isSpace CHR ''d'' = False"
  "canonicalize CHR ''e'' = CHR ''E''" "lowerChar CHR ''e'' = CHR ''e''" "isWordChar CHR ''e'' = True" "isSpace CHR ''e'' = False"
  "canonicalize CHR ''f'' = CHR ''F''" "lowerChar CHR ''f'' = CHR ''f''" "isWordChar CHR ''f'' = True" "isSpace CHR ''f'' = False"
  "canonicalize CHR ''g'' = CHR ''G''" "lowerChar CHR ''g'' = CHR ''g''" "isWordChar CHR ''g'' = True" "isSpace CHR ''g'' = False"
  "canonicalize CHR ''h'' = CHR ''H''" "lowerChar CHR ''h'' = CHR ''h''" "isWordChar CHR ''h'' = True" "isSpace CHR ''h'' = False"
  "canonicalize CHR ''i'' = CHR ''I''" "lowerChar CHR ''i'' = CHR ''i''" "isWordChar CHR ''i'' = True" "isSpace CHR ''i'' = False"
  "canonicalize CHR ''j'' = CHR ''J''" "lowerChar CHR ''j'' = CHR ''j''" "isWordChar CHR ''j'' = True" "isSpace CHR ''j'' = False"
  "canonicalize CHR ''k'' = CHR ''K''" "lowerChar CHR ''k'' = CHR ''k''" "isWordChar CHR ''k'' = True" "isSpace CHR ''k'' = False"
  "canonicalize CHR ''l'' = CHR ''L''" "lowerChar CHR ''l'' = CHR ''l''" "isWordChar CHR ''l'' = True" "isSpace CHR ''l'' = False"
  "canonicalize CHR ''m'' = CHR ''M''" "lowerChar CHR ''m'' = CHR ''m''" "isWordChar CHR ''m'' = True" "isSpace CHR ''m'' = False"
  "canonicalize CHR ''n'' = CHR ''N''" "lowerChar CHR ''n'' = CHR ''n''" "isWordChar CHR ''n'' = True" "isSpace CHR ''n'' = False"
  "canonicalize CHR ''o'' = CHR ''O''" "lowerChar CHR ''o'' = CHR ''o''" "isWordChar CHR ''o'' = True" "isSpace CHR ''o'' = False"
  "canonicalize CHR ''p'' = CHR ''P''" "lowerChar CHR ''p'' = CHR ''p''" "isWordChar CHR ''p'' = True" "isSpace CHR ''p'' = False"
  "canonicalize CHR ''q'' = CHR ''Q''" "lowerChar CHR ''q'' = CHR ''q''" "isWordChar CHR ''q'' = True" "isSpace CHR ''q'' = False"
  "canonicalize CHR ''r'' = CHR ''R''" "lowerChar CHR ''r'' = CHR ''r''" "isWordChar CHR ''r'' = True" "isSpace CHR ''r'' = False"
  "canonicalize CHR ''s'' = CHR ''S''" "lowerChar CHR ''s'' = CHR ''s''" "isWordChar CHR ''s'' = True" "isSpace CHR ''s'' = False"
  "canonicalize CHR ''t'' = CHR ''T''" "lowerChar CHR ''t'' = CHR ''t''" "isWordChar CHR ''t'' = True" "isSpace CHR ''t'' = False"
  "canonicalize CHR ''u'' = CHR ''U''" "lowerChar CHR ''u'' = CHR ''u''" "isWordChar CHR ''u'' = True" "isSpace CHR ''u'' = False"
  "canonicalize CHR ''v'' = CHR ''V''" "lowerChar CHR ''v'' = CHR ''v''" "isWordChar CHR ''v'' = True" "isSpace CHR ''v'' = False"
  "canonicalize CHR ''w'' = CHR ''W''" "lowerChar CHR ''w'' = CHR ''w''" "isWordChar CHR ''w'' = True" "isSpace CHR ''w'' = False"
  "canonicalize CHR ''x'' = CHR ''X''" "lowerChar CHR ''x'' = CHR ''x''" "isWordChar CHR ''x'' = True" "isSpace CHR ''x'' = False"
  "canonicalize CHR ''y'' = CHR ''Y''" "lowerChar CHR ''y'' = CHR ''y''" "isWordChar CHR ''y'' = True" "isSpace CHR ''y'' = False"
  "canonicalize CHR ''z'' = CHR ''Z''" "lowerChar CHR ''z'' = CHR ''z''" "isWordChar CHR ''z'' = True" "isSpace CHR ''z'' = False"
  "canonicalize CHR ''T'' = CHR ''T''" "lowerChar CHR ''T'' = CHR ''t''" "isWordChar CHR ''T'' = True" "isSpace CHR ''T'' = False"
  "canonicalize CHR ''W'' = CHR ''W''" "lowerChar CHR ''W'' = CHR ''w''" "isWordChar CHR ''W'' = True" "isSpace CHR ''W'' = False"
  "canonicalize CHR '' '' = CHR '' ''" "lowerChar CHR '' '' = CHR '' ''" "isWordChar CHR '' '' = False" "isSpace CHR '' '' = True"
  "canonicalize CHR ''.'' = CHR ''.''" "lowerChar CHR ''.'' = CHR ''.''" "isWordChar CHR ''.'' = False" "isSpace CHR ''.'' = False"
  "canonicalize CHR ''-'' = CHR ''-''" "lowerChar CHR ''-'' = CHR ''-''" "isWordChar CHR ''-'' = False" "isSpace CHR ''-'' = False"
  by (simp_all add: canonicalize_def lowerChar_def isSpace_def isWordChar_def code_def char_of_eq_iff)

lemma litAt_simps:
  "litAt ic [] s = True"
  "litAt ic (x # w) [] = False"
  "litAt ic (x # w) (c # cs) = ((if ic then canonicalize c = canonicalize x else c = x) \<and> litAt ic w cs)"
  by (auto simp: litAt_def)

lemma boundedLit_Nil: "boundedLit ic (x # w) prev [] = None"
  by (simp add: boundedLit_def litAt_def)

lemma boundedLit_Cons:
  "boundedLit ic (x # w) prev (c # cs) =
     (if (if ic then canonicalize c = canonicalize x else c = x) then
        (if wordBefore prev \<noteq> isWordChar c then
           (if litAt ic w cs then
              (if boundary (lastOf (Some c) (take (length w) cs)) (drop (length w) cs)
               then Some (Suc (length w)) else None)
            else None)
         else None)
      else None)"
  by (auto simp: boundedLit_def litAt_def boundary_def wordHere_def lastOf_def)

lemma litThenSpaces_Nil: "litThenSpaces ic (x # w) prev [] = None"
  by (simp add: litThenSpaces_def litAt_def)

lemma litThenSpaces_Cons:
  "litThenSpaces ic (x # w) prev (c # cs) =
     (if (if ic then canonicalize c = canonicalize x else c = x) then
        (if wordBefore prev \<noteq> isWordChar c then
           (if litAt ic w cs then
              (let sp = takeWhile isSpace (drop (length w) cs)
               in if sp \<noteq> [] then Some (Suc (length w) + length sp) else None)
            else None)
         else None)
      else None)"
  by (auto simp: litThenSpaces_def litAt_def boundary_def wordHere_def Let_def)

lemmas regex_eval =
  boundedLit_Nil boundedLit_Cons litThenSpaces_Nil litThenSpaces_Cons litAt_simps char_eval
  wordBefore_def wordHere_def boundary_def lastOf_def anyBoundedLit_def test_def toLowerCase_def

lemma slice_eval:
  "slice s b e =
     (if clampIndex (int (length s)) e \<le> clampIndex (int (length s)) b then []
      else take (nat (clampIndex (int (length s)) e - clampIndex (int (length s)) b))
             (drop (nat (clampIndex (int (length s)) b)) s))"
  by (simp add: slice_def Let_def)


lemma simplify_rules_on_means:
  "applyRules ''by means of  '' simplificationRules ctx = ''by  ''"
  by (simp add: applyRules_def simplificationRules_def applyRule_def replaceWords_def
      replacements_def removeModifiers_def replaceAll_def regex_eval)

lemma generate_recognized:
  assumes "selectRules tabs ty = Inr rules"
  shows "generateSuggestions tabs dw content ty ctx =
           Inr \<lparr>soriginal = content, ssuggested = applyRules content rules ctx,
                schanges = calculateWordDiff dw content (applyRules content rules ctx),
                smodel = getModelName ty,
                sconfidence = calculateConfidence (calculateWordDiff dw content (applyRules content rules ctx))\<rparr>"
  using assms by (simp add: generateSuggestions_def Let_def)

section \<open>Reconciliation never rejects\<close>








text \<open>
  C5, as the code has it. For every original string and every list of change records
  that holds two records with overlapping ranges, \<open>applyChangesToContent\<close> does not
  reject the list: it returns the string obtained by splicing every record of the list,
  in an order that is descending in \<open>position.start\<close>.
\<close>

theorem overlapping_changes_spliced:
  assumes "a \<in> set cs" and "b \<in> set cs" and "overlaps a b"
  shows "\<exists>ys. applyChangesToContent original cs = Inr (foldl applyChange original ys)
              \<and> mset ys = mset cs
              \<and> sorted_wrt (\<lambda>x y. pstart (cposition y) \<le> pstart (cposition x)) ys"
proof -
  let ?ys = "sortedChanges cs"
  have "sorted (map (\<lambda>c. - pstart (cposition c)) ?ys)"
    by (simp add: sortedChanges_def)
  then have "sorted_wrt (\<lambda>x y. pstart (cposition y) \<le> pstart (cposition x)) ?ys"
    by (simp add: sorted_wrt_map)
  moreover have "mset ?ys = mset cs"
    by (simp add: sortedChanges_def)
  moreover have "applyChangesToContent original cs = Inr (foldl applyChange original ?ys)"
    by (simp add: applyChangesToContent_def)
  ultimately show ?thesis
    by blast
qed

theorem overlapping_changes_spliced_witness:
  "deletion1 \<in> set [deletion1, modification2] \<and> modification2 \<in> set [deletion1, modification2]
   \<and> overlaps deletion1 modification2
   \<and> (\<exists>ys. applyChangesToContent ''abcdef'' [deletion1, modification2]
               = Inr (foldl applyChange ''abcdef'' ys)
             \<and> mset ys = mset [deletion1, modification2]
             \<and> sorted_wrt (\<lambda>x y. pstart (cposition y) \<le> pstart (cposition x)) ys)"
proof -
  have a: "deletion1 \<in> set [deletion1, modification2]"
    and b: "modification2 \<in> set [deletion1, modification2]"
    by simp_all
  have c: "overlaps deletion1 modification2"
    by (simp add: overlaps_def deletion1_def modification2_def)
  from a b c overlapping_changes_spliced [OF a b c, of "''abcdef''"] show ?thesis
    by blast
qed

text \<open>
  The claim of C5 fails: the two records below overlap, and the call returns the string
  \<open>a\<close> instead of rejecting them.
\<close>

theorem overlapping_changes_counterexample:
  "overlaps deletion1 modification2
   \<and> applyChangesToContent ''abcdef'' [deletion1, modification2] = Inr ''a''"
  by (simp add: overlaps_def applyChangesToContent_def sortedChanges_def applyChange_def
      slice_eval sliceFrom_def clampIndex_def deletion1_def modification2_def)

section \<open>The records of the diff\<close>

lemma chained_mono: "chained lo cs \<Longrightarrow> lo' \<le> lo \<Longrightarrow> chained lo' cs"
  by (cases cs) auto

lemma chained_bounds:
  "chained lo cs \<Longrightarrow> c \<in> set cs \<Longrightarrow>
     lo \<le> pstart (cposition c) \<and> pstart (cposition c) \<le> pend (cposition c)"
proof (induction cs arbitrary: lo)
  case Nil
  then show ?case by simp
next
  case (Cons d cs)
  show ?case
  proof (cases "c = d")
    case True
    with Cons.prems show ?thesis by simp
  next
    case False
    with Cons.prems have "chained (pend (cposition d)) cs" and "c \<in> set cs"
      by simp_all
    then have "pend (cposition d) \<le> pstart (cposition c) \<and> pstart (cposition c) \<le> pend (cposition c)"
      by (rule Cons.IH)
    with Cons.prems show ?thesis by simp
  qed
qed

lemma chained_sorted:
  "chained lo cs \<Longrightarrow> sorted_wrt (\<lambda>a b. pend (cposition a) \<le> pstart (cposition b)) cs"
proof (induction cs arbitrary: lo)
  case Nil
  show ?case by simp
next
  case (Cons d cs)
  then have tl: "chained (pend (cposition d)) cs"
    by simp
  from tl have "sorted_wrt (\<lambda>a b. pend (cposition a) \<le> pstart (cposition b)) cs"
    by (rule Cons.IH)
  moreover have "pend (cposition d) \<le> pstart (cposition c)" if "c \<in> set cs" for c
    using chained_bounds [OF tl that] by simp
  ultimately show ?case by simp
qed

lemma chained_diffLoop: "chained pos (diffLoop ps pos)"
proof (induction ps arbitrary: pos)
  case Nil
  show ?case by simp
next
  case (Cons p ps)
  show ?case
    using Cons.IH [of pos] Cons.IH [of "pos + int (length (pvalue p))"]
    by (auto intro: chained_mono)
qed

lemma wellShaped_diffLoop: "c \<in> set (diffLoop ps pos) \<Longrightarrow> wellShaped c"
proof (induction ps arbitrary: pos)
  case Nil
  then show ?case by simp
next
  case (Cons p ps)
  then show ?case
    by (auto simp: wellShaped_def split: if_splits)
qed

lemma chained_merge: "chained lo cs \<Longrightarrow> chained lo (mergeAdjacentChanges cs)"
proof (induction cs arbitrary: lo rule: mergeAdjacentChanges.induct)
  case 1
  show ?case by simp
next
  case (2 current)
  then show ?case by simp
next
  case (3 current nxt rest)
  show ?case
  proof (cases "ctype current = ''deletion'' \<and> ctype nxt = ''addition''
                \<and> pstart (cposition nxt) = pstart (cposition current)")
    case True
    from "3.prems" have "chained (pend (cposition nxt)) rest"
      and le: "pend (cposition current) \<le> pend (cposition nxt)"
      by simp_all
    then have "chained (pend (cposition current)) rest"
      by (auto intro: chained_mono)
    with True have "chained (pend (cposition current)) (mergeAdjacentChanges rest)"
      using "3.IH"(1) by simp
    with True "3.prems" show ?thesis by simp
  next
    case False
    from "3.prems" have "chained (pend (cposition current)) (nxt # rest)"
      by simp
    with False have "chained (pend (cposition current)) (mergeAdjacentChanges (nxt # rest))"
      using "3.IH"(2) by blast
    with False "3.prems" show ?thesis by auto
  qed
qed

lemma merge_members:
  "c \<in> set (mergeAdjacentChanges cs) \<Longrightarrow>
     c \<in> set cs \<or> (ctype c = ''modification'' \<and> (\<exists>d\<in>set cs. cposition c = cposition d))"
proof (induction cs rule: mergeAdjacentChanges.induct)
  case 1
  then show ?case by simp
next
  case (2 current)
  then show ?case by simp
next
  case (3 current nxt rest)
  then show ?case
    by (auto split: if_splits)
qed

text \<open>
  What holds of the records for every list of parts: they are sorted ascending by
  \<open>position.start\<close>, their ranges do not overlap pairwise, every record has
  \<open>0 \<le> start \<le> end\<close>, and additions and deletions have the shape of their kind.
\<close>

lemma diff_records_ordered:
  "sorted_wrt (\<lambda>a b. pstart (cposition a) \<le> pstart (cposition b))
     (calculateWordDiff dw original transformed)
   \<and> sorted_wrt (\<lambda>a b. \<not> overlaps a b) (calculateWordDiff dw original transformed)
   \<and> (\<forall>c\<in>set (calculateWordDiff dw original transformed).
        0 \<le> pstart (cposition c) \<and> pstart (cposition c) \<le> pend (cposition c)
        \<and> (ctype c = ''addition'' \<longrightarrow>
               coriginal c = [] \<and> pstart (cposition c) = pend (cposition c))
        \<and> (ctype c = ''deletion'' \<longrightarrow>
               csuggested c = []
               \<and> pend (cposition c) - pstart (cposition c) = int (length (coriginal c))))"
proof -
  let ?ps = "dw original transformed"
  let ?cs = "calculateWordDiff dw original transformed"
  have cs: "?cs = mergeAdjacentChanges (diffLoop ?ps 0)"
    by (simp add: calculateWordDiff_def)
  have ch: "chained 0 ?cs"
    unfolding cs by (rule chained_merge) (rule chained_diffLoop)
  have srt: "sorted_wrt (\<lambda>a b. pend (cposition a) \<le> pstart (cposition b)) ?cs"
    using ch by (rule chained_sorted)
  have bnd: "0 \<le> pstart (cposition c) \<and> pstart (cposition c) \<le> pend (cposition c)"
    if "c \<in> set ?cs" for c
    using chained_bounds [OF ch that] .
  have c1: "sorted_wrt (\<lambda>a b. pstart (cposition a) \<le> pstart (cposition b)) ?cs"
  proof (rule sorted_wrt_mono_rel [OF _ srt])
    fix a b
    assume "a \<in> set ?cs" "b \<in> set ?cs" "pend (cposition a) \<le> pstart (cposition b)"
    with bnd [of a] show "pstart (cposition a) \<le> pstart (cposition b)"
      by simp
  qed
  have c2: "sorted_wrt (\<lambda>a b. \<not> overlaps a b) ?cs"
  proof (rule sorted_wrt_mono_rel [OF _ srt])
    fix a b
    assume "a \<in> set ?cs" "b \<in> set ?cs" "pend (cposition a) \<le> pstart (cposition b)"
    then show "\<not> overlaps a b"
      by (simp add: overlaps_def)
  qed
  have shape: "wellShaped c" if "c \<in> set ?cs" for c
  proof -
    from that merge_members [of c "diffLoop ?ps 0"]
    have "c \<in> set (diffLoop ?ps 0) \<or> ctype c = ''modification''"
      unfolding cs by auto
    then show ?thesis
      by (auto simp: wellShaped_diffLoop) (simp add: wellShaped_def)
  qed
  have c3: "\<forall>c\<in>set ?cs.
        0 \<le> pstart (cposition c) \<and> pstart (cposition c) \<le> pend (cposition c)
        \<and> (ctype c = ''addition'' \<longrightarrow>
               coriginal c = [] \<and> pstart (cposition c) = pend (cposition c))
        \<and> (ctype c = ''deletion'' \<longrightarrow>
               csuggested c = []
               \<and> pend (cposition c) - pstart (cposition c) = int (length (coriginal c)))"
  proof
    fix c
    assume c: "c \<in> set ?cs"
    from shape [OF c] bnd [OF c]
    show "0 \<le> pstart (cposition c) \<and> pstart (cposition c) \<le> pend (cposition c)
        \<and> (ctype c = ''addition'' \<longrightarrow>
               coriginal c = [] \<and> pstart (cposition c) = pend (cposition c))
        \<and> (ctype c = ''deletion'' \<longrightarrow>
               csuggested c = []
               \<and> pend (cposition c) - pstart (cposition c) = int (length (coriginal c)))"
      by (auto simp: wellShaped_def split: if_splits)
  qed
  from c1 c2 c3 show ?thesis
    by blast
qed

text \<open>
  C7, at \<open>by means of\<close> followed by two spaces, which the simplify rules turn into \<open>by\<close>
  followed by two spaces. The unchanged part carries the two spaces of the new string and
  the loop advances \<open>position\<close> by its length, 4, where the original has 3 code units
  before \<open>means\<close>: the deletion is recorded at \<open>[4, 14)\<close>, past the end of the original,
  which has 13 code units.
\<close>

theorem record_past_the_end:
  "map cposition (calculateWordDiff (\<lambda>a b. meansParts) ''by means of  '' ''by  '')
     = [\<lparr>pstart = 4, pend = 14\<rparr>]
   \<and> int (length ''by means of  '') = 13"
  by (simp add: calculateWordDiff_def meansParts_def common_def deleted_def)

section \<open>The merge step\<close>

text \<open>
  The loop advances \<open>position\<close> past a deletion before it reads the next part, so the
  addition that replaces a deleted run starts at the end of the deletion, never at its
  start: \<open>mergeAdjacentChanges\<close> compares the two starts and finds them different unless
  the deleted text is empty.
\<close>

lemma merge_unchanged:
  "chained lo cs \<Longrightarrow>
   \<forall>c\<in>set cs. ctype c = ''deletion'' \<longrightarrow> pstart (cposition c) < pend (cposition c) \<Longrightarrow>
   mergeAdjacentChanges cs = cs"
proof (induction cs arbitrary: lo rule: mergeAdjacentChanges.induct)
  case 1
  show ?case by simp
next
  case (2 current)
  show ?case by simp
next
  case (3 current nxt rest)
  from "3.prems"(1) have le: "pend (cposition current) \<le> pstart (cposition nxt)"
    and tl: "chained (pend (cposition current)) (nxt # rest)"
    by simp_all
  have no: "\<not> (ctype current = ''deletion'' \<and> ctype nxt = ''addition''
               \<and> pstart (cposition nxt) = pstart (cposition current))"
    using le "3.prems"(2) by auto
  from "3.prems"(2) have "\<forall>c\<in>set (nxt # rest).
      ctype c = ''deletion'' \<longrightarrow> pstart (cposition c) < pend (cposition c)"
    by simp
  with no tl have "mergeAdjacentChanges (nxt # rest) = nxt # rest"
    using "3.IH"(2) by blast
  with no show ?case by auto
qed

lemma diffLoop_deletions:
  "list_all (\<lambda>p. pvalue p \<noteq> []) ps \<Longrightarrow> c \<in> set (diffLoop ps pos) \<Longrightarrow>
     ctype c = ''deletion'' \<Longrightarrow> pstart (cposition c) < pend (cposition c)"
proof (induction ps arbitrary: pos)
  case Nil
  then show ?case by simp
next
  case (Cons p ps)
  then show ?case
    by (auto split: if_splits)
qed

lemma diffLoop_types:
  "c \<in> set (diffLoop ps pos) \<Longrightarrow> ctype c = ''addition'' \<or> ctype c = ''deletion''"
proof (induction ps arbitrary: pos)
  case Nil
  then show ?case by simp
next
  case (Cons p ps)
  then show ?case
    by (auto split: if_splits)
qed

lemma merge_never_fires:
  assumes "list_all (\<lambda>p. pvalue p \<noteq> []) (dw original transformed)"
  shows "calculateWordDiff dw original transformed = diffLoop (dw original transformed) 0"
    and "\<forall>c\<in>set (calculateWordDiff dw original transformed). ctype c \<noteq> ''modification''"
proof -
  let ?cs = "diffLoop (dw original transformed) 0"
  have "\<forall>c\<in>set ?cs. ctype c = ''deletion'' \<longrightarrow> pstart (cposition c) < pend (cposition c)"
    using assms by (auto dest: diffLoop_deletions)
  with chained_diffLoop [of 0 "dw original transformed"]
  show eq: "calculateWordDiff dw original transformed = ?cs"
    unfolding calculateWordDiff_def by (rule merge_unchanged)
  show "\<forall>c\<in>set (calculateWordDiff dw original transformed). ctype c \<noteq> ''modification''"
    unfolding eq using diffLoop_types by fastforce
qed

text \<open>
  C2, at the grammar scenario of the spec. The parts of \<open>diffWords\<close> hold the deletion of
  \<open>are\<close> directly followed by the insertion of \<open>is\<close>; \<open>calculateWordDiff\<close> returns the
  two records apart, a deletion at \<open>[9, 12)\<close> and an addition at \<open>12\<close>, and no
  modification.
\<close>

theorem merge_misses_replacement:
  "calculateWordDiff (\<lambda>a b. grammarParts) ''The team are working on it.'' ''The team is working on it.''
     = [\<lparr>ctype = ''deletion'', cposition = \<lparr>pstart = 9, pend = 12\<rparr>, coriginal = ''are'',
         csuggested = [], creason = ''Simplifies phrasing''\<rparr>,
        \<lparr>ctype = ''addition'', cposition = \<lparr>pstart = 12, pend = 12\<rparr>, coriginal = [],
         csuggested = ''is'', creason = ''Adds additional context''\<rparr>]"
  by (simp add: calculateWordDiff_def grammarParts_def common_def deleted_def inserted_def
      getReasonForChange_def regex_eval)

section \<open>White space\<close>

lemma concat_tokenizeFrom: "concat (map tvalue (tokenizeFrom i s)) = s"
  by (induction i s rule: tokenizeFrom.induct) (simp_all add: Let_def)

lemma space_not_word: "isSpace c \<Longrightarrow> \<not> isWordChar c"
  unfolding isSpace_def isWordChar_def by arith

lemma tokenType_run:
  assumes "\<forall>d\<in>set v. sameClass c d"
  shows "(tokenType (c # v) = ''whitespace'') = isSpace c"
proof -
  have sp: "list_all isSpace (c # v) = isSpace c"
    using assms by (auto simp: sameClass_def list_all_iff)
  have wd: "list_all isWordChar (c # v) = isWordChar c"
    using assms by (auto simp: sameClass_def list_all_iff)
  show ?thesis
    unfolding tokenType_def sp wd using space_not_word [of c] by auto
qed

lemma token_classes:
  "t \<in> set (tokenizeFrom i s) \<Longrightarrow>
     tvalue t \<noteq> [] \<and> (\<forall>c\<in>set (tvalue t). isSpace c = (ttype t = ''whitespace''))"
proof (induction i s rule: tokenizeFrom.induct)
  case (1 i)
  then show ?case by simp
next
  case (2 i c cs)
  let ?v = "takeWhile (sameClass c) cs"
  have run: "\<forall>d\<in>set ?v. sameClass c d"
    by (auto dest: set_takeWhileD)
  show ?case
  proof (cases "t \<in> set (tokenizeFrom (i + int (length (c # ?v))) (dropWhile (sameClass c) cs))")
    case True
    then show ?thesis by (rule "2.IH" [OF refl])
  next
    case False
    with "2.prems" have t: "tvalue t = c # ?v" "ttype t = tokenType (c # ?v)"
      by (auto simp: Let_def)
    have same: "\<forall>d\<in>set (c # ?v). isSpace d = isSpace c"
      using run by (simp add: sameClass_def)
    have "(ttype t = ''whitespace'') = isSpace c"
      using tokenType_run [OF run] t(2) by simp
    with same t(1) show ?thesis
      by simp
  qed
qed

text \<open>
  \<open>tokenize\<close>, which \<open>calculateWordDiff\<close> does not call, discards nothing: the values of
  the tokens of a text spell the text, no token is empty, and the white space of the text
  is exactly the content of its tokens of type \<open>whitespace\<close>.
\<close>

lemma tokenize_keeps_spaces:
  "concat (map tvalue (tokenize text)) = text
   \<and> (\<forall>t\<in>set (tokenize text).
        tvalue t \<noteq> [] \<and> (\<forall>c\<in>set (tvalue t). isSpace c = (ttype t = ''whitespace'')))"
  by (simp add: tokenize_def concat_tokenizeFrom token_classes)

text \<open>
  C6, at \<open>a b\<close> against \<open>a  b\<close>. The two strings differ only in white space;
  \<open>diffWords\<close> returns one unchanged part for them, the loop pushes no record for it,
  and \<open>calculateWordDiff\<close> returns the empty list.
\<close>

theorem whitespace_difference_unrecorded:
  "calculateWordDiff (\<lambda>a b. spacesOnlyParts) ''a b'' ''a  b'' = [] \<and> ''a b'' \<noteq> ''a  b''"
  by (simp add: calculateWordDiff_def spacesOnlyParts_def common_def)

section \<open>Round trip\<close>

text \<open>
  C1, at \<open>by means of\<close> followed by two spaces, with the category \<open>simplify\<close>. The
  suggested string is \<open>by\<close> followed by two spaces. The one change record is the deletion
  at \<open>[4, 14)\<close>; applying it to the original with \<open>applyChangesToContent\<close> keeps the
  first four code units of the original, \<open>by m\<close>, which is not the suggested string.
\<close>

theorem round_trip_fails_on_spaces:
  "\<exists>sg. generateSuggestions tabs (\<lambda>a b. meansParts) ''by means of  '' ''simplify'' ctx = Inr sg
        \<and> soriginal sg = ''by means of  ''
        \<and> ssuggested sg = ''by  ''
        \<and> applyChangesToContent (soriginal sg) (schanges sg) = Inr ''by m''"
proof -
  have "selectRules tabs ''simplify'' = Inr simplificationRules"
    by (simp add: selectRules_def)
  then show ?thesis
    by (simp add: generate_recognized simplify_rules_on_means calculateWordDiff_def
        meansParts_def common_def deleted_def applyChangesToContent_def sortedChanges_def
        applyChange_def slice_eval sliceFrom_def clampIndex_def)
qed

section \<open>The suggestion service\<close>




text \<open>
  C4, as the code has it. For every category outside \<open>improve\<close>, \<open>grammar\<close>, \<open>simplify\<close>
  and \<open>expand\<close>, and for every content and context, \<open>generateSuggestions\<close> fails, with no
  rule set as a fallback; the error thrown by \<open>selectRules\<close> is caught and thrown again
  with the code \<open>GENERATION_FAILED\<close>, status 500, and the message
  \<open>Unknown suggestion type: ...\<close> as \<open>details.reason\<close>.
\<close>

theorem unknown_category_fails:
  assumes "ty \<noteq> ''improve''" and "ty \<noteq> ''grammar''" and "ty \<noteq> ''simplify''" and "ty \<noteq> ''expand''"
  shows "generateSuggestions tabs dw content ty ctx
           = Inl \<lparr>estatus = 500, ecode = ''GENERATION_FAILED'',
                  emessage = ''Failed to generate suggestions'',
                  ereason = ''Unknown suggestion type: '' @ ty\<rparr>"
proof -
  from assms have "selectRules tabs ty = Inl (''Unknown suggestion type: '' @ ty)"
    by (simp add: selectRules_def)
  then show ?thesis
    by (simp add: generateSuggestions_def)
qed

theorem unknown_category_fails_witness:
  "''translate'' \<noteq> ''improve'' \<and> ''translate'' \<noteq> ''grammar'' \<and> ''translate'' \<noteq> ''simplify''
   \<and> ''translate'' \<noteq> ''expand''
   \<and> generateSuggestions noRules (\<lambda>a b. grammarParts) ''The team are working on it.'' ''translate''
        Map.empty
       = Inl \<lparr>estatus = 500, ecode = ''GENERATION_FAILED'',
              emessage = ''Failed to generate suggestions'',
              ereason = ''Unknown suggestion type: '' @ ''translate''\<rparr>"
proof -
  have h: "''translate'' \<noteq> ''improve''" "''translate'' \<noteq> ''grammar''"
    "''translate'' \<noteq> ''simplify''" "''translate'' \<noteq> ''expand''"
    by simp_all
  from h unknown_category_fails [OF h, of noRules "\<lambda>a b. grammarParts" "''The team are working on it.''" Map.empty]
  show ?thesis by blast
qed

text \<open>
  The claim of C4 fails: the error for the category \<open>translate\<close> carries the code
  \<open>GENERATION_FAILED\<close>, not \<open>UNKNOWN_CATEGORY\<close>.
\<close>

theorem unknown_category_counterexample:
  "generateSuggestions noRules (\<lambda>a b. []) ''Hello'' ''translate'' Map.empty
     = Inl \<lparr>estatus = 500, ecode = ''GENERATION_FAILED'',
            emessage = ''Failed to generate suggestions'',
            ereason = ''Unknown suggestion type: translate''\<rparr>"
  by (simp add: generateSuggestions_def selectRules_def)

section \<open>Confidence\<close>

lemma sizePenalty_fold:
  "foldl (\<lambda>acc c. acc + (if 20 < changeSize c then 1 / 100 else 0)) (a::rat) cs
     = a + of_nat (length (filter
         (\<lambda>c. 20 < max (length (coriginal c)) (length (csuggested c))) cs)) / 100"
  by (induction cs arbitrary: a) (simp_all add: changeSize_def add_divide_distrib)

lemma round_hundredths:
  fixes n k :: nat
  shows "of_int (round (max (1 / 2) (95 / 100 - of_nat n * (2 / 100) - of_nat k / 100) * (100::rat))) / 100
           = max (1 / 2) (95 / 100 - of_nat n * (2 / 100) - of_nat k / (100::rat))"
proof -
  let ?x = "max (1 / 2) (95 / 100 - of_nat n * (2 / 100) - of_nat k / (100::rat))"
  have "?x * 100 = of_int (max 50 (95 - 2 * int n - int k))"
    by (simp add: max_def field_simps)
  then have "of_int (round (?x * 100)) = ?x * 100"
    by simp
  then show ?thesis
    by simp
qed

text \<open>
  C8. The empty change list scores exactly 1. For every other list of change records the
  score is \<open>max(0.5, 0.95 - 0.02 * len(changes) - sizePenalty)\<close> rounded to two decimal
  places, where \<open>sizePenalty\<close> is 0.01 for every change with
  \<open>max(len(originalText), len(suggestedText)) > 20\<close>; the rounding leaves that value as it
  is. The score is always in \<open>[0, 1]\<close>.
\<close>

theorem confidence_formula:
  "calculateConfidence [] = 1
   \<and> (changes \<noteq> [] \<longrightarrow>
        calculateConfidence changes
          = of_int (round (max (1 / 2)
              (95 / 100 - 2 / 100 * of_nat (length changes)
               - 1 / 100 * of_nat (length (filter
                   (\<lambda>c. 20 < max (length (coriginal c)) (length (csuggested c))) changes)))
              * (100::rat))) / 100
        \<and> calculateConfidence changes
            = max (1 / 2)
                (95 / 100 - 2 / 100 * of_nat (length changes)
                 - 1 / 100 * of_nat (length (filter
                     (\<lambda>c. 20 < max (length (coriginal c)) (length (csuggested c))) changes))))
   \<and> 0 \<le> calculateConfidence changes \<and> calculateConfidence changes \<le> 1"
proof -
  let ?n = "length changes"
  let ?k = "length (filter (\<lambda>c. 20 < max (length (coriginal c)) (length (csuggested c))) changes)"
  let ?x = "max (1 / 2) (95 / 100 - of_nat ?n * (2 / 100) - of_nat ?k / (100::rat))"
  have empty: "calculateConfidence [] = 1"
    by (simp add: calculateConfidence_def)
  have val: "calculateConfidence changes = of_int (round (?x * 100)) / 100" if "changes \<noteq> []"
    using that by (simp add: calculateConfidence_def Let_def sizePenalty_fold)
  have exact: "calculateConfidence changes = ?x" if "changes \<noteq> []"
    using val [OF that] round_hundredths [of ?n ?k] by simp
  have "0 \<le> calculateConfidence changes \<and> calculateConfidence changes \<le> 1"
  proof (cases "changes = []")
    case True
    then show ?thesis by (simp add: empty)
  next
    case False
    have "0 \<le> ?x" and "?x \<le> 1"
      by (simp_all add: max_def)
    with exact [OF False] show ?thesis by simp
  qed
  with empty val exact show ?thesis
    by (simp add: mult.commute)
qed

theorem confidence_formula_witness:
  "[largeChange, deletion1] \<noteq> []
   \<and> calculateConfidence [largeChange, deletion1] = 90 / 100
   \<and> calculateConfidence [deletion1] = 93 / 100
   \<and> calculateConfidence [] = 1"
proof -
  have h: "[largeChange, deletion1] \<noteq> []" and h1: "[deletion1] \<noteq> []"
    by simp_all
  have k: "length (filter (\<lambda>c. 20 < max (length (coriginal c)) (length (csuggested c)))
             [largeChange, deletion1]) = 1"
    by (simp add: largeChange_def deletion1_def)
  have k1: "length (filter (\<lambda>c. 20 < max (length (coriginal c)) (length (csuggested c)))
             [deletion1]) = 0"
    by (simp add: deletion1_def)
  from h confidence_formula [of "[largeChange, deletion1]"]
  have "calculateConfidence [largeChange, deletion1]
          = max (1 / 2)
              (95 / 100 - 2 / 100 * of_nat (length [largeChange, deletion1])
               - 1 / 100 * of_nat (length (filter
                   (\<lambda>c. 20 < max (length (coriginal c)) (length (csuggested c)))
                   [largeChange, deletion1])))"
    by blast
  then have "calculateConfidence [largeChange, deletion1] = 90 / 100"
    unfolding k by simp
  moreover from h1 confidence_formula [of "[deletion1]"]
  have "calculateConfidence [deletion1]
          = max (1 / 2)
              (95 / 100 - 2 / 100 * of_nat (length [deletion1])
               - 1 / 100 * of_nat (length (filter
                   (\<lambda>c. 20 < max (length (coriginal c)) (length (csuggested c)))
                   [deletion1])))"
    by blast
  then have "calculateConfidence [deletion1] = 93 / 100"
    unfolding k1 by simp
  moreover from confidence_formula [of "[]"] have "calculateConfidence [] = 1"
    by blast
  ultimately show ?thesis
    by simp
qed

section \<open>Reasons\<close>

lemma getGrammarReason_nonempty: "getGrammarReason a b \<noteq> []"
  by (simp add: getGrammarReason_def)

lemma ratio_nat:
  "((3 / 2 :: rat) * of_nat b < of_nat a) = (3 * b < 2 * a)"
proof -
  have "((3 / 2 :: rat) * of_nat b < of_nat a) = ((of_nat (3 * b) :: rat) < of_nat (2 * a))"
    by (simp add: field_simps)
  then show ?thesis
    by (simp only: of_nat_less_iff)
qed

text \<open>
  C9, as the code has it. For every modification on which neither the grammar patterns
  nor the word table match, the reason is \<open>Simplifies expression\<close> when
  \<open>len(original) > 1.5 * len(suggested)\<close>, \<open>Adds more detail\<close> when
  \<open>len(suggested) > 1.5 * len(original)\<close>, and \<open>Enhances clarity\<close> otherwise. An addition
  gets \<open>Adds descriptive emphasis\<close> when its text holds one of the words \<open>innovative\<close>,
  \<open>exceptional\<close>, \<open>comprehensive\<close>, and \<open>Adds additional context\<close> otherwise. A deletion
  gets \<open>Removes unnecessary modifier\<close> when its text holds one of the words \<open>very\<close>,
  \<open>really\<close>, \<open>quite\<close>, \<open>just\<close>, and \<open>Simplifies phrasing\<close> otherwise. A reason is always
  produced.
\<close>

theorem reason_defaults:
  "(\<not> isGrammarCorrection (toLowerCase original) (toLowerCase suggested)
      \<and> \<not> isWordChoiceImprovement (toLowerCase original) (toLowerCase suggested) \<longrightarrow>
      getReasonForChange ''modification'' original suggested
        = (if (3 / 2 :: rat) * of_nat (length suggested) < of_nat (length original)
           then ''Simplifies expression''
           else if (3 / 2 :: rat) * of_nat (length original) < of_nat (length suggested)
           then ''Adds more detail''
           else ''Enhances clarity''))
   \<and> getReasonForChange ''addition'' original suggested
       = (if test (anyBoundedLit [''innovative'', ''exceptional'', ''comprehensive''])
               (toLowerCase suggested)
          then ''Adds descriptive emphasis'' else ''Adds additional context'')
   \<and> getReasonForChange ''deletion'' original suggested
       = (if test (anyBoundedLit [''very'', ''really'', ''quite'', ''just'']) (toLowerCase original)
          then ''Removes unnecessary modifier'' else ''Simplifies phrasing'')
   \<and> getReasonForChange ty original suggested \<noteq> []"
proof -
  have m: "getReasonForChange ''modification'' original suggested
        = (if (3 / 2 :: rat) * of_nat (length suggested) < of_nat (length original)
           then ''Simplifies expression''
           else if (3 / 2 :: rat) * of_nat (length original) < of_nat (length suggested)
           then ''Adds more detail''
           else ''Enhances clarity'')"
    if "\<not> isGrammarCorrection (toLowerCase original) (toLowerCase suggested)"
      and "\<not> isWordChoiceImprovement (toLowerCase original) (toLowerCase suggested)"
    using that unfolding ratio_nat by (simp add: getReasonForChange_def)
  have a: "getReasonForChange ''addition'' original suggested
       = (if test (anyBoundedLit [''innovative'', ''exceptional'', ''comprehensive''])
               (toLowerCase suggested)
          then ''Adds descriptive emphasis'' else ''Adds additional context'')"
    by (simp add: getReasonForChange_def)
  have d: "getReasonForChange ''deletion'' original suggested
       = (if test (anyBoundedLit [''very'', ''really'', ''quite'', ''just'']) (toLowerCase original)
          then ''Removes unnecessary modifier'' else ''Simplifies phrasing'')"
    by (simp add: getReasonForChange_def)
  have n: "getReasonForChange ty original suggested \<noteq> []"
    by (simp add: getReasonForChange_def Let_def getGrammarReason_nonempty)
  from m a d n show ?thesis
    by blast
qed

theorem reason_defaults_witness:
  "\<not> isGrammarCorrection (toLowerCase ''at this point'') (toLowerCase ''now'')
   \<and> \<not> isWordChoiceImprovement (toLowerCase ''at this point'') (toLowerCase ''now'')
   \<and> getReasonForChange ''modification'' ''at this point'' ''now'' = ''Simplifies expression''
   \<and> getReasonForChange ''addition'' [] ''now'' = ''Adds additional context''
   \<and> getReasonForChange ''deletion'' ''just'' [] = ''Removes unnecessary modifier''"
proof -
  have g: "\<not> isGrammarCorrection (toLowerCase ''at this point'') (toLowerCase ''now'')"
    by (simp add: isGrammarCorrection_def grammarPatterns_def regex_eval)
  have w: "\<not> isWordChoiceImprovement (toLowerCase ''at this point'') (toLowerCase ''now'')"
    by (simp add: isWordChoiceImprovement_def splitSpaces_def improvements_def toLowerCase_def
        char_eval)
  have e: "\<not> test (anyBoundedLit [''innovative'', ''exceptional'', ''comprehensive''])
               (toLowerCase ''now'')"
    by (simp add: regex_eval)
  have f: "test (anyBoundedLit [''very'', ''really'', ''quite'', ''just'']) (toLowerCase ''just'')"
    by (simp add: regex_eval)
  from g w reason_defaults [of "''at this point''" "''now''"]
  have "getReasonForChange ''modification'' ''at this point'' ''now'' = ''Simplifies expression''"
    by simp
  moreover from e reason_defaults [of "[]" "''now''"]
  have "getReasonForChange ''addition'' [] ''now'' = ''Adds additional context''"
    by simp
  moreover from f reason_defaults [of "''just''" "[]"]
  have "getReasonForChange ''deletion'' ''just'' [] = ''Removes unnecessary modifier''"
    by simp
  ultimately show ?thesis
    using g w by blast
qed

text \<open>
  The claim of C9 fails: an addition that holds the word \<open>innovative\<close> does not get the
  default reason of additions, and the label of a modification that grows by more than
  half is \<open>Adds more detail\<close>.
\<close>

theorem reason_defaults_counterexample:
  "getReasonForChange ''addition'' [] ''innovative '' = ''Adds descriptive emphasis''
   \<and> getReasonForChange ''modification'' ''now'' ''at this point'' = ''Adds more detail''"
  by (simp add: getReasonForChange_def isGrammarCorrection_def grammarPatterns_def
      isWordChoiceImprovement_def splitSpaces_def improvements_def regex_eval)

end
